theory Spec2Isabelle
  imports Main
begin

section \<open>CalDAV REPORT requests of libcaldav (\<^verbatim>\<open>get-caldav-report.c\<close>)\<close>

text \<open>
  A shallow embedding of the four REPORT operations \<^verbatim>\<open>caldav_getall\<close>,
  \<^verbatim>\<open>caldav_getrange\<close>, \<^verbatim>\<open>caldav_tasks_getall\<close> and
  \<^verbatim>\<open>caldav_tasks_getrange\<close>. Each C function takes a pointer to the settings
  and a pointer to the error record and mutates both; the model passes the two
  records in and returns them, together with the return value and the list of
  handles that were handed to \<^verbatim>\<open>curl_easy_perform\<close>.
\<close>

subsection \<open>Data\<close>

text \<open>\<^verbatim>\<open>time_t\<close>: seconds since the epoch, a signed integer. No arithmetic of the
  source can overflow on it.\<close>

type_synonym time_t = int

text \<open>The fields of \<^verbatim>\<open>caldav_settings\<close> that the source file reads or writes.
  \<^verbatim>\<open>file\<close> and \<^verbatim>\<open>end\<close> are reserved words here, hence the primes. A
  \<^verbatim>\<open>char*\<close> is a \<open>string option\<close>, \<open>None\<close> being \<^verbatim>\<open>NULL\<close>.\<close>

record caldav_settings =
  file' :: "string option"
  debug :: int
  trace_ascii :: int
  start :: time_t
  end' :: time_t

text \<open>\<^verbatim>\<open>struct _caldav_error\<close> of \<^verbatim>\<open>caldav.h\<close>.\<close>

record caldav_error =
  code :: int
  str :: "string option"

datatype callback = WriteMemoryCallback | WriteHeaderCallback | my_trace

datatype buffer = Chunk | Headers

datatype redir = CURL_REDIR_GET_ALL | CURL_REDIR_POST_ALL

text \<open>A curl easy handle: the options the source sets with \<^verbatim>\<open>curl_easy_setopt\<close>,
  and in \<open>base\<close> whatever \<^verbatim>\<open>get_curl\<close> configured before (URL, credentials,
  TLS options), which this file never looks at.\<close>

record 'h curl =
  base :: 'h
  opt_writefunction :: "callback option"
  opt_writedata :: "buffer option"
  opt_headerfunction :: "callback option"
  opt_writeheader :: "buffer option"
  opt_postfields :: "string option"
  opt_postfieldsize :: nat
  opt_httpheader :: "string list"
  opt_errorbuffer :: bool
  opt_debugfunction :: "callback option"
  opt_debugdata :: "int option"
  opt_verbose :: int
  opt_customrequest :: "string option"
  opt_followlocation :: int
  opt_unrestricted_auth :: int
  opt_postredir :: "redir option"

text \<open>What one call of \<^verbatim>\<open>curl_easy_perform\<close> leaves behind: its return code, the
  error buffer, the two \<^verbatim>\<open>MemoryStruct\<close> buffers filled by the callbacks
  (\<open>None\<close> when the callback never ran and \<^verbatim>\<open>memory\<close> is still \<^verbatim>\<open>NULL\<close>) and
  the status that \<^verbatim>\<open>curl_easy_getinfo(CURLINFO_RESPONSE_CODE)\<close> reports.\<close>

record transfer =
  res :: int
  error_buf :: string
  chunk_memory :: "string option"
  headers_memory :: "string option"
  response_code :: int

text \<open>The collaborators that are not part of the source file: \<^verbatim>\<open>get_curl\<close> and
  \<^verbatim>\<open>parse_caldav_report\<close> of the library's utilities, and libcurl's transfer.\<close>

record 'h env =
  get_curl :: "caldav_settings \<Rightarrow> 'h curl option"
  curl_easy_perform :: "'h curl \<Rightarrow> transfer"
  parse_caldav_report :: "string option \<Rightarrow> string \<Rightarrow> string \<Rightarrow> string option"

text \<open>The state after a call: the return value (\<^verbatim>\<open>TRUE\<close> means error), the two
  records behind the pointers, and the handles that were performed.\<close>

record 'h outcome =
  result :: bool
  settings_out :: caldav_settings
  error_out :: caldav_error
  performed :: "'h curl list"

subsection \<open>Request bodies\<close>

definition CRLF :: string where
  "CRLF = [CHR 0x0D, CHR 0x0A]"

definition getall_request :: string where
  \<open>getall_request =
    ''<?xml version="1.0" encoding="utf-8" ?>'' @
    ''<C:calendar-query xmlns:D="DAV:"'' @
    ''                 xmlns:C="urn:ietf:params:xml:ns:caldav">'' @
    '' <D:prop>'' @
    ''   <D:getetag/>'' @
    ''   <C:calendar-data/>'' @
    '' </D:prop>'' @
    '' <C:filter>'' @
    ''   <C:comp-filter name="VCALENDAR">'' @
    ''     <C:comp-filter name="VEVENT"/>'' @
    ''   </C:comp-filter>'' @
    '' </C:filter>'' @
    ''</C:calendar-query>'' @ CRLF\<close>

definition getrange_request_head :: string where
  \<open>getrange_request_head =
    ''<?xml version="1.0" encoding="utf-8" ?>'' @
    ''<C:calendar-query xmlns:C="urn:ietf:params:xml:ns:caldav">'' @
    '' <D:prop xmlns:D="DAV:">'' @
    ''   <C:calendar-data/>'' @
    '' </D:prop>'' @
    '' <C:filter>'' @
    ''   <C:comp-filter name="VCALENDAR">'' @
    ''     <C:comp-filter name="VEVENT">''\<close>

definition getrange_request_foot :: string where
  \<open>getrange_request_foot =
    ''     </C:comp-filter>'' @
    ''   </C:comp-filter>'' @
    '' </C:filter>'' @
    ''</C:calendar-query>'' @ CRLF\<close>

definition getall_tasks_request :: string where
  \<open>getall_tasks_request =
    ''<?xml version="1.0" encoding="utf-8" ?>'' @
    ''<C:calendar-query xmlns:D="DAV:"'' @
    ''                 xmlns:C="urn:ietf:params:xml:ns:caldav">'' @
    '' <D:prop>'' @
    ''   <D:getetag/>'' @
    ''   <C:calendar-data/>'' @
    '' </D:prop>'' @
    '' <C:filter>'' @
    ''   <C:comp-filter name="VCALENDAR">'' @
    ''     <C:comp-filter name="VTODO"/>'' @
    ''   </C:comp-filter>'' @
    '' </C:filter>'' @
    ''</C:calendar-query>'' @ CRLF\<close>

definition getrange_tasks_request_head :: string where
  \<open>getrange_tasks_request_head =
    ''<?xml version="1.0" encoding="utf-8" ?>'' @
    ''<C:calendar-query xmlns:C="urn:ietf:params:xml:ns:caldav">'' @
    '' <D:prop xmlns:D="DAV:">'' @
    ''   <C:calendar-data/>'' @
    '' </D:prop>'' @
    '' <C:filter>'' @
    ''   <C:comp-filter name="VCALENDAR">'' @
    ''     <C:comp-filter name="VTODO">''\<close>

subsection \<open>Timestamps\<close>

text \<open>The proleptic Gregorian date \<open>(year, month, day)\<close> of a day number counted
  from 1970-01-01, by the usual era arithmetic (eras of 400 years, years starting
  in March).\<close>

definition civil_from_days :: "int \<Rightarrow> int \<times> int \<times> int" where
  "civil_from_days z0 =
    (let z = z0 + 719468;
         era = z div 146097;
         doe = z mod 146097;
         yoe = (doe - doe div 1460 + doe div 36524 - doe div 146096) div 365;
         doy = doe - (365 * yoe + yoe div 4 - yoe div 100);
         mp = (5 * doy + 2) div 153;
         d = doy - (153 * mp + 2) div 5 + 1;
         m = (if mp < 10 then mp + 3 else mp - 9);
         y = yoe + era * 400 + (if m \<le> 2 then 1 else 0)
     in (y, m, d))"

definition digit :: "int \<Rightarrow> char" where
  "digit n = ''0123456789'' ! nat (n mod 10)"

definition pad2 :: "int \<Rightarrow> string" where
  "pad2 n = [digit (n div 10), digit n]"

definition pad4 :: "int \<Rightarrow> string" where
  "pad4 n = [digit (n div 1000), digit (n div 100), digit (n div 10), digit n]"

text \<open>A natural number in decimal, without leading zeros.\<close>

fun decimal :: "nat \<Rightarrow> string" where
  "decimal n = (if n < 10 then [digit (int n)] else decimal (n div 10) @ [digit (int n)])"

declare decimal.simps [simp del]

text \<open>The year: four digits for the years 0000 to 9999, which are the years the
  form \<^verbatim>\<open>YYYY\<close> can write; any other year is written out in full, with a sign
  when it is negative, so that no two years are written alike.\<close>

definition year_digits :: "int \<Rightarrow> string" where
  "year_digits y = (if y \<le> 9999 then pad4 y else decimal (nat y))"

definition year_field :: "int \<Rightarrow> string" where
  "year_field y = (if y < 0 then ''-'' @ year_digits (- y) else year_digits y)"

text \<open>Modelled from the spec: \<^verbatim>\<open>get_caldav_datetime\<close> is defined in the library's
  utilities, not in this source file. The spec gives its result as the UTC
  basic-format timestamp \<^verbatim>\<open>YYYYMMDDTHHMMSSZ\<close> of the instant: the date and the
  time of day in UTC, each field in decimal at its fixed width.\<close>

definition get_caldav_datetime :: "time_t \<Rightarrow> string" where
  "get_caldav_datetime t =
    (let secs = t mod 86400;
         (y, m, d) = civil_from_days (t div 86400)
     in year_field y @ pad2 m @ pad2 d @ ''T'' @
        pad2 (secs div 3600) @ pad2 (secs mod 3600 div 60) @ pad2 (secs mod 60) @ ''Z'')"

subsection \<open>The operations\<close>

text \<open>Each C function is modelled in two parts, cut at its call of
  \<^verbatim>\<open>curl_easy_perform\<close>: \<open>f_setup\<close> is the sequence of
  \<^verbatim>\<open>curl_slist_append\<close> and \<^verbatim>\<open>curl_easy_setopt\<close> calls on the handle, in the
  order of the source; \<open>f\<close> is the function itself, from \<^verbatim>\<open>get_curl\<close> to the
  interpretation of the transfer. Releasing the buffers, the header list and the
  handle has no effect on what is returned and is left out.\<close>

definition curl_slist_append :: "string list \<Rightarrow> string \<Rightarrow> string list" where
  "curl_slist_append l s = l @ [s]"

definition caldav_getall_setup :: "caldav_settings \<Rightarrow> 'h curl \<Rightarrow> 'h curl" where
  \<open>caldav_getall_setup settings curl0 =
         (let http_header = curl_slist_append [] ''Content-Type: application/xml; charset="utf-8"'';
          http_header = curl_slist_append http_header ''Depth: 1'';
          http_header = curl_slist_append http_header ''Expect:'';
          http_header = curl_slist_append http_header ''Transfer-Encoding:'';
          http_header = curl_slist_append http_header ''Connection: close'';
          curl = curl0;
          curl = curl\<lparr>opt_writefunction := Some WriteMemoryCallback\<rparr>;
          curl = curl\<lparr>opt_writedata := Some Chunk\<rparr>;
          curl = curl\<lparr>opt_headerfunction := Some WriteHeaderCallback\<rparr>;
          curl = curl\<lparr>opt_writeheader := Some Headers\<rparr>;
          curl = curl\<lparr>opt_postfields := Some getall_request\<rparr>;
          curl = curl\<lparr>opt_postfieldsize := length getall_request\<rparr>;
          curl = curl\<lparr>opt_httpheader := http_header\<rparr>;
          curl = curl\<lparr>opt_errorbuffer := True\<rparr>;
          curl = (if debug settings \<noteq> 0
                  then curl\<lparr>opt_debugfunction := Some my_trace,
                            opt_debugdata := Some (trace_ascii settings),
                            opt_verbose := 1\<rparr>
                  else curl);
          curl = curl\<lparr>opt_customrequest := Some ''REPORT''\<rparr>;
          curl = curl\<lparr>opt_followlocation := 1\<rparr>;
          curl = curl\<lparr>opt_unrestricted_auth := 1\<rparr>;
          curl = curl\<lparr>opt_postredir := Some CURL_REDIR_POST_ALL\<rparr>
      in curl)\<close>

definition caldav_getall ::
  "'h env \<Rightarrow> caldav_settings \<Rightarrow> caldav_error \<Rightarrow> 'h outcome" where
  \<open>caldav_getall env settings error =
    (case get_curl env settings of
       None \<Rightarrow>
         \<lparr>result = True,
          settings_out = settings\<lparr>file' := None\<rparr>,
          error_out = error\<lparr>code := - 1, str := Some ''Could not initialize libcurl''\<rparr>,
          performed = []\<rparr>
     | Some curl0 \<Rightarrow>
         let curl = caldav_getall_setup settings curl0;
             t = curl_easy_perform env curl
         in if res t \<noteq> 0 then
              \<lparr>result = True,
               settings_out = settings\<lparr>file' := None\<rparr>,
               error_out = error\<lparr>code := - 1, str := Some (error_buf t)\<rparr>,
               performed = [curl]\<rparr>
            else if response_code t \<noteq> 207 then
              \<lparr>result = True,
               settings_out = settings,
               error_out = error\<lparr>code := response_code t, str := headers_memory t\<rparr>,
               performed = [curl]\<rparr>
            else
              \<lparr>result = False,
               settings_out = settings\<lparr>file' :=
                 parse_caldav_report env (chunk_memory t) ''calendar-data'' ''VEVENT''\<rparr>,
               error_out = error,
               performed = [curl]\<rparr>)\<close>

definition caldav_getrange_setup :: "caldav_settings \<Rightarrow> 'h curl \<Rightarrow> 'h curl" where
  \<open>caldav_getrange_setup settings curl0 =
         (let http_header = curl_slist_append [] ''Content-Type: application/xml; charset="utf-8"'';
          http_header = curl_slist_append http_header ''Depth: 1'';
          http_header = curl_slist_append http_header ''Expect:'';
          http_header = curl_slist_append http_header ''Transfer-Encoding:'';
          http_header = curl_slist_append http_header ''Connection: close'';
          curl = curl0\<lparr>opt_httpheader := http_header\<rparr>;
          curl = curl\<lparr>opt_writefunction := Some WriteMemoryCallback\<rparr>;
          curl = curl\<lparr>opt_writedata := Some Chunk\<rparr>;
          curl = curl\<lparr>opt_headerfunction := Some WriteHeaderCallback\<rparr>;
          curl = curl\<lparr>opt_writeheader := Some Headers\<rparr>;
          curl = curl\<lparr>opt_errorbuffer := True\<rparr>;
          curl = (if debug settings \<noteq> 0
                  then curl\<lparr>opt_debugfunction := Some my_trace,
                            opt_debugdata := Some (trace_ascii settings),
                            opt_verbose := 1\<rparr>
                  else curl);
          request = getrange_request_head @ CRLF @
            ''<C:time-range start="'' @ get_caldav_datetime (start settings) @ ''"'' @ CRLF @
            '' end="'' @ get_caldav_datetime (end' settings) @ ''"/>'' @ CRLF @
            getrange_request_foot;
          curl = curl\<lparr>opt_postfields := Some request\<rparr>;
          curl = curl\<lparr>opt_postfieldsize := length request\<rparr>;
          curl = curl\<lparr>opt_customrequest := Some ''REPORT''\<rparr>;
          curl = curl\<lparr>opt_followlocation := 1\<rparr>;
          curl = curl\<lparr>opt_unrestricted_auth := 1\<rparr>;
          curl = curl\<lparr>opt_postredir := Some CURL_REDIR_POST_ALL\<rparr>
      in curl)\<close>

definition caldav_getrange ::
  "'h env \<Rightarrow> caldav_settings \<Rightarrow> caldav_error \<Rightarrow> 'h outcome" where
  \<open>caldav_getrange env settings error =
    (case get_curl env settings of
       None \<Rightarrow>
         \<lparr>result = True,
          settings_out = settings\<lparr>file' := None\<rparr>,
          error_out = error\<lparr>code := - 1, str := Some ''Could not initialize libcurl''\<rparr>,
          performed = []\<rparr>
     | Some curl0 \<Rightarrow>
         let curl = caldav_getrange_setup settings curl0;
             t = curl_easy_perform env curl
         in if res t \<noteq> 0 then
              \<lparr>result = True,
               settings_out = settings\<lparr>file' := None\<rparr>,
               error_out = error\<lparr>code := - 1, str := Some (error_buf t)\<rparr>,
               performed = [curl]\<rparr>
            else
              \<lparr>result = False,
               settings_out = settings\<lparr>file' :=
                 parse_caldav_report env (chunk_memory t) ''calendar-data'' ''VEVENT''\<rparr>,
               error_out = error,
               performed = [curl]\<rparr>)\<close>

definition caldav_tasks_getall_setup :: "caldav_settings \<Rightarrow> 'h curl \<Rightarrow> 'h curl" where
  \<open>caldav_tasks_getall_setup settings curl0 =
         (let http_header = curl_slist_append [] ''Content-Type: application/xml; charset="utf-8"'';
          http_header = curl_slist_append http_header ''Depth: 1'';
          http_header = curl_slist_append http_header ''Expect:'';
          http_header = curl_slist_append http_header ''Transfer-Encoding:'';
          http_header = curl_slist_append http_header ''Connection: close'';
          curl = curl0;
          curl = curl\<lparr>opt_writefunction := Some WriteMemoryCallback\<rparr>;
          curl = curl\<lparr>opt_writedata := Some Chunk\<rparr>;
          curl = curl\<lparr>opt_headerfunction := Some WriteHeaderCallback\<rparr>;
          curl = curl\<lparr>opt_writeheader := Some Headers\<rparr>;
          curl = curl\<lparr>opt_postfields := Some getall_tasks_request\<rparr>;
          curl = curl\<lparr>opt_postfieldsize := length getall_tasks_request\<rparr>;
          curl = curl\<lparr>opt_httpheader := http_header\<rparr>;
          curl = curl\<lparr>opt_errorbuffer := True\<rparr>;
          curl = (if debug settings \<noteq> 0
                  then curl\<lparr>opt_debugfunction := Some my_trace,
                            opt_debugdata := Some (trace_ascii settings),
                            opt_verbose := 1\<rparr>
                  else curl);
          curl = curl\<lparr>opt_customrequest := Some ''REPORT''\<rparr>;
          curl = curl\<lparr>opt_followlocation := 1\<rparr>;
          curl = curl\<lparr>opt_unrestricted_auth := 1\<rparr>;
          curl = curl\<lparr>opt_postredir := Some CURL_REDIR_POST_ALL\<rparr>
      in curl)\<close>

definition caldav_tasks_getall ::
  "'h env \<Rightarrow> caldav_settings \<Rightarrow> caldav_error \<Rightarrow> 'h outcome" where
  \<open>caldav_tasks_getall env settings error =
    (case get_curl env settings of
       None \<Rightarrow>
         \<lparr>result = True,
          settings_out = settings\<lparr>file' := None\<rparr>,
          error_out = error\<lparr>code := - 1, str := Some ''Could not initialize libcurl''\<rparr>,
          performed = []\<rparr>
     | Some curl0 \<Rightarrow>
         let curl = caldav_tasks_getall_setup settings curl0;
             t = curl_easy_perform env curl
         in if res t \<noteq> 0 then
              \<lparr>result = True,
               settings_out = settings\<lparr>file' := None\<rparr>,
               error_out = error\<lparr>code := - 1, str := Some (error_buf t)\<rparr>,
               performed = [curl]\<rparr>
            else if response_code t \<noteq> 207 then
              \<lparr>result = True,
               settings_out = settings,
               error_out = error\<lparr>code := response_code t, str := headers_memory t\<rparr>,
               performed = [curl]\<rparr>
            else
              \<lparr>result = False,
               settings_out = settings\<lparr>file' :=
                 parse_caldav_report env (chunk_memory t) ''calendar-data'' ''VTODO''\<rparr>,
               error_out = error,
               performed = [curl]\<rparr>)\<close>

definition caldav_tasks_getrange_setup :: "caldav_settings \<Rightarrow> 'h curl \<Rightarrow> 'h curl" where
  \<open>caldav_tasks_getrange_setup settings curl0 =
         (let http_header = curl_slist_append [] ''Content-Type: application/xml; charset="utf-8"'';
          http_header = curl_slist_append http_header ''Depth: 1'';
          http_header = curl_slist_append http_header ''Expect:'';
          http_header = curl_slist_append http_header ''Transfer-Encoding:'';
          http_header = curl_slist_append http_header ''Connection: close'';
          curl = curl0\<lparr>opt_httpheader := http_header\<rparr>;
          curl = curl\<lparr>opt_writefunction := Some WriteMemoryCallback\<rparr>;
          curl = curl\<lparr>opt_writedata := Some Chunk\<rparr>;
          curl = curl\<lparr>opt_headerfunction := Some WriteHeaderCallback\<rparr>;
          curl = curl\<lparr>opt_writeheader := Some Headers\<rparr>;
          curl = curl\<lparr>opt_errorbuffer := True\<rparr>;
          curl = (if debug settings \<noteq> 0
                  then curl\<lparr>opt_debugfunction := Some my_trace,
                            opt_debugdata := Some (trace_ascii settings),
                            opt_verbose := 1\<rparr>
                  else curl);
          request = getrange_tasks_request_head @ CRLF @
            ''<C:time-range start="'' @ get_caldav_datetime (start settings) @ ''"'' @ CRLF @
            '' end="'' @ get_caldav_datetime (end' settings) @ ''"/>'' @ CRLF @
            getrange_request_foot;
          curl = curl\<lparr>opt_postfields := Some request\<rparr>;
          curl = curl\<lparr>opt_postfieldsize := length request\<rparr>;
          curl = curl\<lparr>opt_customrequest := Some ''REPORT''\<rparr>;
          curl = curl\<lparr>opt_followlocation := 1\<rparr>;
          curl = curl\<lparr>opt_unrestricted_auth := 1\<rparr>;
          curl = curl\<lparr>opt_postredir := Some CURL_REDIR_POST_ALL\<rparr>
      in curl)\<close>

definition caldav_tasks_getrange ::
  "'h env \<Rightarrow> caldav_settings \<Rightarrow> caldav_error \<Rightarrow> 'h outcome" where
  \<open>caldav_tasks_getrange env settings error =
    (case get_curl env settings of
       None \<Rightarrow>
         \<lparr>result = True,
          settings_out = settings\<lparr>file' := None\<rparr>,
          error_out = error\<lparr>code := - 1, str := Some ''Could not initialize libcurl''\<rparr>,
          performed = []\<rparr>
     | Some curl0 \<Rightarrow>
         let curl = caldav_tasks_getrange_setup settings curl0;
             t = curl_easy_perform env curl
         in if res t \<noteq> 0 then
              \<lparr>result = True,
               settings_out = settings\<lparr>file' := None\<rparr>,
               error_out = error\<lparr>code := - 1, str := Some (error_buf t)\<rparr>,
               performed = [curl]\<rparr>
            else
              \<lparr>result = False,
               settings_out = settings\<lparr>file' :=
                 parse_caldav_report env (chunk_memory t) ''calendar-data'' ''VTODO''\<rparr>,
               error_out = error,
               performed = [curl]\<rparr>)\<close>

subsection \<open>Vocabulary of the properties\<close>

text \<open>The four REPORT operations, to quantify over them.\<close>

definition report_operations ::
  "('h env \<Rightarrow> caldav_settings \<Rightarrow> caldav_error \<Rightarrow> 'h outcome) set" where
  "report_operations =
     {caldav_getall, caldav_getrange, caldav_tasks_getall, caldav_tasks_getrange}"

text \<open>The two operations that fetch everything, each with its component.\<close>

definition all_operations ::
  "(('h env \<Rightarrow> caldav_settings \<Rightarrow> caldav_error \<Rightarrow> 'h outcome) \<times> string) set" where
  "all_operations = {(caldav_getall, ''VEVENT''), (caldav_tasks_getall, ''VTODO'')}"

text \<open>The two range operations, each with the component it asks the parser for.\<close>

definition range_operations ::
  "(('h env \<Rightarrow> caldav_settings \<Rightarrow> caldav_error \<Rightarrow> 'h outcome) \<times> string) set" where
  "range_operations = {(caldav_getrange, ''VEVENT''), (caldav_tasks_getrange, ''VTODO'')}"

text \<open>The operations with the part of each that prepares the handle, and, for the
  two pairs of siblings, with the component as well.\<close>

definition report_setups ::
  "(('h env \<Rightarrow> caldav_settings \<Rightarrow> caldav_error \<Rightarrow> 'h outcome) \<times>
    (caldav_settings \<Rightarrow> 'h curl \<Rightarrow> 'h curl)) set" where
  "report_setups =
     {(caldav_getall, caldav_getall_setup), (caldav_getrange, caldav_getrange_setup),
      (caldav_tasks_getall, caldav_tasks_getall_setup),
      (caldav_tasks_getrange, caldav_tasks_getrange_setup)}"

definition all_setups ::
  "(('h env \<Rightarrow> caldav_settings \<Rightarrow> caldav_error \<Rightarrow> 'h outcome) \<times>
    (caldav_settings \<Rightarrow> 'h curl \<Rightarrow> 'h curl) \<times> string) set" where
  "all_setups =
     {(caldav_getall, caldav_getall_setup, ''VEVENT''),
      (caldav_tasks_getall, caldav_tasks_getall_setup, ''VTODO'')}"

definition range_setups ::
  "(('h env \<Rightarrow> caldav_settings \<Rightarrow> caldav_error \<Rightarrow> 'h outcome) \<times>
    (caldav_settings \<Rightarrow> 'h curl \<Rightarrow> 'h curl) \<times> string) set" where
  "range_setups =
     {(caldav_getrange, caldav_getrange_setup, ''VEVENT''),
      (caldav_tasks_getrange, caldav_tasks_getrange_setup, ''VTODO'')}"

text \<open>The same surroundings, except that every transfer reports the status \<open>k\<close>.\<close>

definition with_status :: "int \<Rightarrow> 'h env \<Rightarrow> 'h env" where
  "with_status k env =
     env\<lparr>curl_easy_perform := \<lambda>c. (curl_easy_perform env c)\<lparr>response_code := k\<rparr>\<rparr>"

text \<open>The tags of a document, in document order: for every \<^verbatim>\<open><\<close> the text up to
  the next \<^verbatim>\<open>>\<close>. The first argument is the tag being read, if any.\<close>

fun scan_tags :: "string option \<Rightarrow> string \<Rightarrow> string list" where
  "scan_tags _ [] = []"
| "scan_tags None (c # cs) =
     (if c = CHR ''<'' then scan_tags (Some []) cs else scan_tags None cs)"
| "scan_tags (Some acc) (c # cs) =
     (if c = CHR ''>'' then acc # scan_tags None cs else scan_tags (Some (acc @ [c])) cs)"

definition xml_tags :: "string \<Rightarrow> string list" where
  "xml_tags doc = scan_tags None doc"

text \<open>Concrete surroundings for the examples: a handle with nothing set; a transfer
  that fails with curl code 6 (host not resolved), one that completes with the
  status 404 and one that completes with the status 207; surroundings that
  answer every call the same way, with a parser that labels the body with what
  it was asked for; settings that still hold an earlier result;
  and an error record that holds none.\<close>

definition blank_handle :: "unit curl" where
  "blank_handle =
     \<lparr>base = (), opt_writefunction = None, opt_writedata = None, opt_headerfunction = None,
      opt_writeheader = None, opt_postfields = None, opt_postfieldsize = 0,
      opt_httpheader = [], opt_errorbuffer = False, opt_debugfunction = None,
      opt_debugdata = None, opt_verbose = 0, opt_customrequest = None,
      opt_followlocation = 0, opt_unrestricted_auth = 0, opt_postredir = None\<rparr>"

definition failed_transfer :: transfer where
  "failed_transfer =
     \<lparr>res = 6, error_buf = ''Could not resolve host'',
      chunk_memory = None, headers_memory = None, response_code = 0\<rparr>"

definition not_found_transfer :: transfer where
  "not_found_transfer =
     \<lparr>res = 0, error_buf = [],
      chunk_memory = Some ''<html>Not Found</html>'',
      headers_memory = Some ''HTTP/1.1 404 Not Found'', response_code = 404\<rparr>"

definition multistatus_transfer :: transfer where
  "multistatus_transfer =
     \<lparr>res = 0, error_buf = [],
      chunk_memory = Some ''<D:multistatus xmlns:D=\"DAV:\"/>'',
      headers_memory = Some ''HTTP/1.1 207 Multi-Status'', response_code = 207\<rparr>"

definition scripted :: "unit curl option \<Rightarrow> transfer \<Rightarrow> unit env" where
  "scripted h t =
     \<lparr>get_curl = \<lambda>_. h, curl_easy_perform = \<lambda>_. t,
      parse_caldav_report =
        \<lambda>body element component. map_option (\<lambda>b. element @ ''/'' @ component @ '': '' @ b) body\<rparr>"

definition stale_settings :: caldav_settings where
  "stale_settings =
     \<lparr>file' = Some ''BEGIN:VCALENDAR'', debug = 0, trace_ascii = 0, start = 0, end' = 86399\<rparr>"

definition no_error :: caldav_error where
  "no_error = \<lparr>code = 0, str = None\<rparr>"

text \<open>Surroundings in which \<^verbatim>\<open>get_curl\<close> gives no handle, and surroundings with
  a handle and each of the three transfers.\<close>

definition refusing :: "unit env" where
  "refusing = scripted None multistatus_transfer"

definition unreachable :: "unit env" where
  "unreachable = scripted (Some blank_handle) failed_transfer"

definition not_found :: "unit env" where
  "not_found = scripted (Some blank_handle) not_found_transfer"

definition multistatus :: "unit env" where
  "multistatus = scripted (Some blank_handle) multistatus_transfer"

section \<open>Properties\<close>

subsection \<open>Auxiliary facts\<close>

lemma report_operations_cases:
  assumes "f \<in> report_operations"
  obtains "f = caldav_getall" | "f = caldav_getrange"
    | "f = caldav_tasks_getall" | "f = caldav_tasks_getrange"
  using assms unfolding report_operations_def by blast

lemma report_operations_unit [simp]:
  "(caldav_getall :: unit env \<Rightarrow> _) \<in> report_operations"
  "(caldav_getrange :: unit env \<Rightarrow> _) \<in> report_operations"
  "(caldav_tasks_getall :: unit env \<Rightarrow> _) \<in> report_operations"
  "(caldav_tasks_getrange :: unit env \<Rightarrow> _) \<in> report_operations"
  by (simp_all add: report_operations_def)

lemmas transfer_defs =
  failed_transfer_def not_found_transfer_def multistatus_transfer_def

lemmas op_defs =
  caldav_getall_def caldav_getrange_def caldav_tasks_getall_def caldav_tasks_getrange_def

lemma performed_getall:
  "c \<in> set (performed (caldav_getall env s e)) \<Longrightarrow>
     \<exists>h. get_curl env s = Some h \<and> c = caldav_getall_setup s h"
  by (cases "get_curl env s") (simp_all add: caldav_getall_def Let_def split: if_splits)

lemma performed_getrange:
  "c \<in> set (performed (caldav_getrange env s e)) \<Longrightarrow>
     \<exists>h. get_curl env s = Some h \<and> c = caldav_getrange_setup s h"
  by (cases "get_curl env s") (simp_all add: caldav_getrange_def Let_def split: if_splits)

lemma performed_tasks_getall:
  "c \<in> set (performed (caldav_tasks_getall env s e)) \<Longrightarrow>
     \<exists>h. get_curl env s = Some h \<and> c = caldav_tasks_getall_setup s h"
  by (cases "get_curl env s") (simp_all add: caldav_tasks_getall_def Let_def split: if_splits)

lemma performed_tasks_getrange:
  "c \<in> set (performed (caldav_tasks_getrange env s e)) \<Longrightarrow>
     \<exists>h. get_curl env s = Some h \<and> c = caldav_tasks_getrange_setup s h"
  by (cases "get_curl env s") (simp_all add: caldav_tasks_getrange_def Let_def split: if_splits)

lemma report_setups_cases:
  assumes "(f, prepare) \<in> report_setups"
  obtains "f = caldav_getall" "prepare = caldav_getall_setup"
    | "f = caldav_getrange" "prepare = caldav_getrange_setup"
    | "f = caldav_tasks_getall" "prepare = caldav_tasks_getall_setup"
    | "f = caldav_tasks_getrange" "prepare = caldav_tasks_getrange_setup"
  using assms unfolding report_setups_def by blast

lemma all_setups_cases:
  assumes "(f, prepare, component) \<in> all_setups"
  obtains "f = caldav_getall" "prepare = caldav_getall_setup" "component = ''VEVENT''"
    | "f = caldav_tasks_getall" "prepare = caldav_tasks_getall_setup" "component = ''VTODO''"
  using assms unfolding all_setups_def by blast

lemma range_setups_cases:
  assumes "(f, prepare, component) \<in> range_setups"
  obtains "f = caldav_getrange" "prepare = caldav_getrange_setup" "component = ''VEVENT''"
    | "f = caldav_tasks_getrange" "prepare = caldav_tasks_getrange_setup" "component = ''VTODO''"
  using assms unfolding range_setups_def by blast

lemma setups_unit [simp]:
  "((caldav_getall :: unit env \<Rightarrow> _), caldav_getall_setup) \<in> report_setups"
  "((caldav_getrange :: unit env \<Rightarrow> _), caldav_getrange_setup) \<in> report_setups"
  "((caldav_tasks_getall :: unit env \<Rightarrow> _), caldav_tasks_getall_setup) \<in> report_setups"
  "((caldav_tasks_getrange :: unit env \<Rightarrow> _), caldav_tasks_getrange_setup) \<in> report_setups"
  "((caldav_getall :: unit env \<Rightarrow> _), caldav_getall_setup, ''VEVENT'') \<in> all_setups"
  "((caldav_tasks_getall :: unit env \<Rightarrow> _), caldav_tasks_getall_setup, ''VTODO'') \<in> all_setups"
  "((caldav_getrange :: unit env \<Rightarrow> _), caldav_getrange_setup, ''VEVENT'') \<in> range_setups"
  "((caldav_tasks_getrange :: unit env \<Rightarrow> _), caldav_tasks_getrange_setup, ''VTODO'') \<in> range_setups"
  "((caldav_getall :: unit env \<Rightarrow> _), ''VEVENT'') \<in> all_operations"
  "((caldav_tasks_getall :: unit env \<Rightarrow> _), ''VTODO'') \<in> all_operations"
  "((caldav_getrange :: unit env \<Rightarrow> _), ''VEVENT'') \<in> range_operations"
  "((caldav_tasks_getrange :: unit env \<Rightarrow> _), ''VTODO'') \<in> range_operations"
  by (simp_all add: report_setups_def all_setups_def range_setups_def
      all_operations_def range_operations_def)

lemma performed_with_handle:
  "get_curl env s = Some h \<Longrightarrow>
     performed (caldav_getall env s e) = [caldav_getall_setup s h]"
  "get_curl env s = Some h \<Longrightarrow>
     performed (caldav_getrange env s e) = [caldav_getrange_setup s h]"
  "get_curl env s = Some h \<Longrightarrow>
     performed (caldav_tasks_getall env s e) = [caldav_tasks_getall_setup s h]"
  "get_curl env s = Some h \<Longrightarrow>
     performed (caldav_tasks_getrange env s e) = [caldav_tasks_getrange_setup s h]"
  by (simp_all add: op_defs Let_def)

lemma sample_handles [simp]:
  "get_curl unreachable s = Some blank_handle"
  "get_curl not_found s = Some blank_handle"
  "get_curl multistatus s = Some blank_handle"
  "curl_easy_perform unreachable c = failed_transfer"
  "curl_easy_perform not_found c = not_found_transfer"
  "curl_easy_perform multistatus c = multistatus_transfer"
  by (simp_all add: unreachable_def not_found_def multistatus_def scripted_def)

lemmas setup_defs =
  caldav_getall_setup_def caldav_getrange_setup_def
  caldav_tasks_getall_setup_def caldav_tasks_getrange_setup_def

lemma setup_customrequest:
  "opt_customrequest (caldav_getall_setup s h) = Some ''REPORT''"
  "opt_customrequest (caldav_getrange_setup s h) = Some ''REPORT''"
  "opt_customrequest (caldav_tasks_getall_setup s h) = Some ''REPORT''"
  "opt_customrequest (caldav_tasks_getrange_setup s h) = Some ''REPORT''"
  by (simp_all add: setup_defs Let_def)

lemma setup_httpheader:
  \<open>opt_httpheader (caldav_getall_setup s h) =
     [''Content-Type: application/xml; charset="utf-8"'', ''Depth: 1'', ''Expect:'',
      ''Transfer-Encoding:'', ''Connection: close'']\<close>
  \<open>opt_httpheader (caldav_getrange_setup s h) =
     [''Content-Type: application/xml; charset="utf-8"'', ''Depth: 1'', ''Expect:'',
      ''Transfer-Encoding:'', ''Connection: close'']\<close>
  \<open>opt_httpheader (caldav_tasks_getall_setup s h) =
     [''Content-Type: application/xml; charset="utf-8"'', ''Depth: 1'', ''Expect:'',
      ''Transfer-Encoding:'', ''Connection: close'']\<close>
  \<open>opt_httpheader (caldav_tasks_getrange_setup s h) =
     [''Content-Type: application/xml; charset="utf-8"'', ''Depth: 1'', ''Expect:'',
      ''Transfer-Encoding:'', ''Connection: close'']\<close>
  by (simp_all add: setup_defs Let_def curl_slist_append_def)

lemma setup_postfieldsize:
  "\<exists>body. opt_postfields (caldav_getall_setup s h) = Some body \<and>
     opt_postfieldsize (caldav_getall_setup s h) = length body"
  "\<exists>body. opt_postfields (caldav_getrange_setup s h) = Some body \<and>
     opt_postfieldsize (caldav_getrange_setup s h) = length body"
  "\<exists>body. opt_postfields (caldav_tasks_getall_setup s h) = Some body \<and>
     opt_postfieldsize (caldav_tasks_getall_setup s h) = length body"
  "\<exists>body. opt_postfields (caldav_tasks_getrange_setup s h) = Some body \<and>
     opt_postfieldsize (caldav_tasks_getrange_setup s h) = length body"
  by (simp_all add: setup_defs Let_def)

lemma setup_redirect:
  "opt_followlocation (caldav_getall_setup s h) = 1 \<and>
   opt_unrestricted_auth (caldav_getall_setup s h) = 1 \<and>
   opt_postredir (caldav_getall_setup s h) = Some CURL_REDIR_POST_ALL"
  "opt_followlocation (caldav_getrange_setup s h) = 1 \<and>
   opt_unrestricted_auth (caldav_getrange_setup s h) = 1 \<and>
   opt_postredir (caldav_getrange_setup s h) = Some CURL_REDIR_POST_ALL"
  "opt_followlocation (caldav_tasks_getall_setup s h) = 1 \<and>
   opt_unrestricted_auth (caldav_tasks_getall_setup s h) = 1 \<and>
   opt_postredir (caldav_tasks_getall_setup s h) = Some CURL_REDIR_POST_ALL"
  "opt_followlocation (caldav_tasks_getrange_setup s h) = 1 \<and>
   opt_unrestricted_auth (caldav_tasks_getrange_setup s h) = 1 \<and>
   opt_postredir (caldav_tasks_getrange_setup s h) = Some CURL_REDIR_POST_ALL"
  by (simp_all add: setup_defs Let_def)

lemma scan_tags_inside:
  "CHR ''>'' \<notin> set ts \<Longrightarrow> scan_tags (Some acc) (ts @ rest) = scan_tags (Some (acc @ ts)) rest"
  by (induction ts arbitrary: acc) auto

lemma digit_decimal: "digit n \<in> set ''0123456789''"
proof -
  have "nat (n mod 10) < length ''0123456789''" by simp
  then show ?thesis unfolding digit_def by (rule nth_mem)
qed

lemma digit_not_gt [simp]: "digit n \<noteq> CHR ''>''" "CHR ''>'' \<noteq> digit n"
  using digit_decimal [of n] by auto

lemma decimal_no_gt: "CHR ''>'' \<notin> set (decimal n)"
  by (induction n rule: decimal.induct) (subst decimal.simps, simp)

lemma year_field_no_gt: "CHR ''>'' \<notin> set (year_field y)"
  by (simp add: year_field_def year_digits_def pad4_def decimal_no_gt)

lemma datetime_no_gt [simp]: "CHR ''>'' \<notin> set (get_caldav_datetime t)"
  by (simp add: get_caldav_datetime_def pad2_def year_field_no_gt Let_def split: prod.splits)

lemma getall_tags:
  \<open>xml_tags getall_request =
    [''?xml version="1.0" encoding="utf-8" ?'',
     ''C:calendar-query xmlns:D="DAV:"                 xmlns:C="urn:ietf:params:xml:ns:caldav"'',
     ''D:prop'', ''D:getetag/'', ''C:calendar-data/'', ''/D:prop'',
     ''C:filter'', ''C:comp-filter name="VCALENDAR"'', ''C:comp-filter name="VEVENT"/'',
     ''/C:comp-filter'', ''/C:filter'', ''/C:calendar-query'']\<close>
  by (simp add: xml_tags_def getall_request_def CRLF_def)

lemma getall_tasks_tags:
  \<open>xml_tags getall_tasks_request =
    [''?xml version="1.0" encoding="utf-8" ?'',
     ''C:calendar-query xmlns:D="DAV:"                 xmlns:C="urn:ietf:params:xml:ns:caldav"'',
     ''D:prop'', ''D:getetag/'', ''C:calendar-data/'', ''/D:prop'',
     ''C:filter'', ''C:comp-filter name="VCALENDAR"'', ''C:comp-filter name="VTODO"/'',
     ''/C:comp-filter'', ''/C:filter'', ''/C:calendar-query'']\<close>
  by (simp add: xml_tags_def getall_tasks_request_def CRLF_def)

lemma getrange_tags:
  \<open>xml_tags (getrange_request_head @ CRLF @
      ''<C:time-range start="'' @ get_caldav_datetime t1 @ ''"'' @ CRLF @
      '' end="'' @ get_caldav_datetime t2 @ ''"/>'' @ CRLF @ getrange_request_foot) =
    [''?xml version="1.0" encoding="utf-8" ?'',
     ''C:calendar-query xmlns:C="urn:ietf:params:xml:ns:caldav"'',
     ''D:prop xmlns:D="DAV:"'', ''C:calendar-data/'', ''/D:prop'',
     ''C:filter'', ''C:comp-filter name="VCALENDAR"'', ''C:comp-filter name="VEVENT"'',
     ''C:time-range start="'' @ get_caldav_datetime t1 @ ''"'' @ CRLF @
       '' end="'' @ get_caldav_datetime t2 @ ''"/'',
     ''/C:comp-filter'', ''/C:comp-filter'', ''/C:filter'', ''/C:calendar-query'']\<close>
  by (simp add: xml_tags_def getrange_request_head_def getrange_request_foot_def CRLF_def
      scan_tags_inside)


lemma getrange_tasks_tags:
  \<open>xml_tags (getrange_tasks_request_head @ CRLF @
      ''<C:time-range start="'' @ get_caldav_datetime t1 @ ''"'' @ CRLF @
      '' end="'' @ get_caldav_datetime t2 @ ''"/>'' @ CRLF @ getrange_request_foot) =
    [''?xml version="1.0" encoding="utf-8" ?'',
     ''C:calendar-query xmlns:C="urn:ietf:params:xml:ns:caldav"'',
     ''D:prop xmlns:D="DAV:"'', ''C:calendar-data/'', ''/D:prop'',
     ''C:filter'', ''C:comp-filter name="VCALENDAR"'', ''C:comp-filter name="VTODO"'',
     ''C:time-range start="'' @ get_caldav_datetime t1 @ ''"'' @ CRLF @
       '' end="'' @ get_caldav_datetime t2 @ ''"/'',
     ''/C:comp-filter'', ''/C:comp-filter'', ''/C:filter'', ''/C:calendar-query'']\<close>
  by (simp add: xml_tags_def getrange_tasks_request_head_def getrange_request_foot_def CRLF_def
      scan_tags_inside)

lemma setup_postfields:
  "opt_postfields (caldav_getall_setup s h) = Some getall_request"
  "opt_postfields (caldav_tasks_getall_setup s h) = Some getall_tasks_request"
  \<open>opt_postfields (caldav_getrange_setup s h) =
     Some (getrange_request_head @ CRLF @
       ''<C:time-range start="'' @ get_caldav_datetime (start s) @ ''"'' @ CRLF @
       '' end="'' @ get_caldav_datetime (end' s) @ ''"/>'' @ CRLF @ getrange_request_foot)\<close>
  \<open>opt_postfields (caldav_tasks_getrange_setup s h) =
     Some (getrange_tasks_request_head @ CRLF @
       ''<C:time-range start="'' @ get_caldav_datetime (start s) @ ''"'' @ CRLF @
       '' end="'' @ get_caldav_datetime (end' s) @ ''"/>'' @ CRLF @ getrange_request_foot)\<close>
  by (simp_all add: setup_defs Let_def)

lemma datetime_examples:
  "get_caldav_datetime 0 = ''19700101T000000Z''"
  "get_caldav_datetime 86399 = ''19700101T235959Z''"
  by code_simp+

lemma datetime_more_examples:
  "get_caldav_datetime 951782400 = ''20000229T000000Z''"
  "get_caldav_datetime 1700000000 = ''20231114T221320Z''"
  "get_caldav_datetime (- 1) = ''19691231T235959Z''"
  "get_caldav_datetime 1709251199 = ''20240229T235959Z''"
  "get_caldav_datetime 4107542400 = ''21000301T000000Z''"
  "get_caldav_datetime 253402300799 = ''99991231T235959Z''"
  by code_simp+

lemma decimal_example: "decimal 10000 = ''10000''"
  by (simp add: decimal.simps digit_def)

lemma civil_example: "civil_from_days 2932897 = (10000, 1, 1)"
  by code_simp

lemma datetime_after_9999: "get_caldav_datetime 253402300800 = ''100000101T000000Z''"
  by (simp add: get_caldav_datetime_def civil_example year_field_def year_digits_def
      decimal_example pad2_def digit_def)

lemma datetime_shape:
  assumes "civil_from_days (t div 86400) = (y, m, d)" and "0 \<le> y" and "y \<le> 9999"
  shows "length (get_caldav_datetime t) = 16 \<and>
         get_caldav_datetime t ! 8 = CHR ''T'' \<and>
         get_caldav_datetime t ! 15 = CHR ''Z'' \<and>
         set (take 8 (get_caldav_datetime t)) \<subseteq> set ''0123456789'' \<and>
         set (take 6 (drop 9 (get_caldav_datetime t))) \<subseteq> set ''0123456789''"
proof -
  have g: "get_caldav_datetime t =
      [digit (y div 1000), digit (y div 100), digit (y div 10), digit y,
       digit (m div 10), digit m, digit (d div 10), digit d, CHR ''T'',
       digit (t mod 86400 div 3600 div 10), digit (t mod 86400 div 3600),
       digit (t mod 86400 mod 3600 div 60 div 10), digit (t mod 86400 mod 3600 div 60),
       digit (t mod 86400 mod 60 div 10), digit (t mod 86400 mod 60), CHR ''Z'']"
    using assms
    by (simp add: get_caldav_datetime_def year_field_def year_digits_def pad2_def pad4_def
        Let_def)
  show ?thesis
    unfolding g using digit_decimal by simp
qed

lemma error_overwritten: "e\<lparr>code := c, str := m\<rparr> = \<lparr>code = c, str = m\<rparr>"
  by (cases e) simp

lemma error_out_cases:
  assumes "f \<in> report_operations"
  obtains (failed) c m where "\<And>e. result (f env s e)"
      and "\<And>e. error_out (f env s e) = \<lparr>code = c, str = m\<rparr>"
    | (succeeded) "\<And>e. \<not> result (f env s e)" and "\<And>e. error_out (f env s e) = e"
  using assms
proof (cases rule: report_operations_cases)
  case 1
  show ?thesis
  proof (cases "get_curl env s")
    case None
    with 1 show ?thesis by (intro failed [of "- 1" "Some ''Could not initialize libcurl''"])
        (simp_all add: caldav_getall_def error_overwritten)
  next
    case (Some h)
    let ?t = "curl_easy_perform env (caldav_getall_setup s h)"
    consider "res ?t \<noteq> 0" | "res ?t = 0" "response_code ?t \<noteq> 207"
      | "res ?t = 0" "response_code ?t = 207" by blast
    then show ?thesis
    proof cases
      case 1
      with \<open>f = caldav_getall\<close> Some show ?thesis
        by (intro failed [of "- 1" "Some (error_buf ?t)"])
          (simp_all add: caldav_getall_def Let_def error_overwritten)
    next
      case 2
      with \<open>f = caldav_getall\<close> Some show ?thesis
        by (intro failed [of "response_code ?t" "headers_memory ?t"])
          (simp_all add: caldav_getall_def Let_def error_overwritten)
    next
      case 3
      with \<open>f = caldav_getall\<close> Some show ?thesis
        by (intro succeeded) (simp_all add: caldav_getall_def Let_def)
    qed
  qed
next
  case 2
  show ?thesis
  proof (cases "get_curl env s")
    case None
    with 2 show ?thesis by (intro failed [of "- 1" "Some ''Could not initialize libcurl''"])
        (simp_all add: caldav_getrange_def error_overwritten)
  next
    case (Some h)
    let ?t = "curl_easy_perform env (caldav_getrange_setup s h)"
    show ?thesis
    proof (cases "res ?t = 0")
      case False
      with 2 Some show ?thesis
        by (intro failed [of "- 1" "Some (error_buf ?t)"])
          (simp_all add: caldav_getrange_def Let_def error_overwritten)
    next
      case True
      with 2 Some show ?thesis
        by (intro succeeded) (simp_all add: caldav_getrange_def Let_def)
    qed
  qed
next
  case 3
  show ?thesis
  proof (cases "get_curl env s")
    case None
    with 3 show ?thesis by (intro failed [of "- 1" "Some ''Could not initialize libcurl''"])
        (simp_all add: caldav_tasks_getall_def error_overwritten)
  next
    case (Some h)
    let ?t = "curl_easy_perform env (caldav_tasks_getall_setup s h)"
    consider "res ?t \<noteq> 0" | "res ?t = 0" "response_code ?t \<noteq> 207"
      | "res ?t = 0" "response_code ?t = 207" by blast
    then show ?thesis
    proof cases
      case 1
      with \<open>f = caldav_tasks_getall\<close> Some show ?thesis
        by (intro failed [of "- 1" "Some (error_buf ?t)"])
          (simp_all add: caldav_tasks_getall_def Let_def error_overwritten)
    next
      case 2
      with \<open>f = caldav_tasks_getall\<close> Some show ?thesis
        by (intro failed [of "response_code ?t" "headers_memory ?t"])
          (simp_all add: caldav_tasks_getall_def Let_def error_overwritten)
    next
      case 3
      with \<open>f = caldav_tasks_getall\<close> Some show ?thesis
        by (intro succeeded) (simp_all add: caldav_tasks_getall_def Let_def)
    qed
  qed
next
  case 4
  show ?thesis
  proof (cases "get_curl env s")
    case None
    with 4 show ?thesis by (intro failed [of "- 1" "Some ''Could not initialize libcurl''"])
        (simp_all add: caldav_tasks_getrange_def error_overwritten)
  next
    case (Some h)
    let ?t = "curl_easy_perform env (caldav_tasks_getrange_setup s h)"
    show ?thesis
    proof (cases "res ?t = 0")
      case False
      with 4 Some show ?thesis
        by (intro failed [of "- 1" "Some (error_buf ?t)"])
          (simp_all add: caldav_tasks_getrange_def Let_def error_overwritten)
    next
      case True
      with 4 Some show ?thesis
        by (intro succeeded) (simp_all add: caldav_tasks_getrange_def Let_def)
    qed
  qed
qed

subsection \<open>No handle\<close>

text \<open>Claim C10. In each of the four operations, when \<^verbatim>\<open>get_curl\<close> returns
  \<^verbatim>\<open>NULL\<close> the operation returns \<^verbatim>\<open>TRUE\<close>, the error record holds the code
  \<open>-1\<close> and the message \<^verbatim>\<open>Could not initialize libcurl\<close>, \<^verbatim>\<open>settings->file\<close> is
  \<^verbatim>\<open>NULL\<close>, and no request was performed.\<close>

theorem no_handle:
  assumes "f \<in> report_operations" and "get_curl env s = None"
  shows "result (f env s e) \<and>
         code (error_out (f env s e)) = - 1 \<and>
         str (error_out (f env s e)) = Some ''Could not initialize libcurl'' \<and>
         file' (settings_out (f env s e)) = None \<and>
         performed (f env s e) = []"
  using assms(1)
  by (cases rule: report_operations_cases) (simp_all add: op_defs assms(2))

theorem no_handle_witness:
  "(caldav_tasks_getrange :: unit env \<Rightarrow> _) \<in> report_operations \<and>
   get_curl refusing stale_settings = None \<and>
   result (caldav_tasks_getrange refusing stale_settings no_error) \<and>
   error_out (caldav_tasks_getrange refusing stale_settings no_error) =
     \<lparr>code = - 1, str = Some ''Could not initialize libcurl''\<rparr> \<and>
   file' (settings_out
     (caldav_tasks_getrange refusing stale_settings no_error)) = None \<and>
   performed (caldav_tasks_getrange refusing stale_settings no_error) = []"
proof -
  have m: "caldav_tasks_getrange \<in> (report_operations :: (unit env \<Rightarrow> _) set)"
    by simp
  have g: "get_curl refusing stale_settings = None"
    by (simp add: refusing_def scripted_def)
  from no_handle [OF m g, of no_error] m g show ?thesis
    by (simp add: no_error_def caldav_error.equality)
qed

subsection \<open>Transport failure\<close>

text \<open>Claim C7. In each of the four operations, when \<^verbatim>\<open>get_curl\<close> gives a handle
  and the transfer of the prepared handle returns a nonzero curl code, the
  operation performs that one handle and returns \<^verbatim>\<open>TRUE\<close> with the error code
  \<open>-1\<close> and the content of the transport's error buffer as message; the HTTP
  status plays no part: whatever status the transfer reports, the outcome is the
  same.\<close>

theorem transport_failure:
  assumes "(f, prepare) \<in> report_setups"
    and "get_curl env s = Some h"
    and "res (curl_easy_perform env (prepare s h)) \<noteq> 0"
  shows "performed (f env s e) = [prepare s h] \<and>
         result (f env s e) \<and>
         code (error_out (f env s e)) = - 1 \<and>
         str (error_out (f env s e)) = Some (error_buf (curl_easy_perform env (prepare s h))) \<and>
         f (with_status k env) s e = f env s e"
  using assms(1)
proof (cases rule: report_setups_cases)
  case 1
  with assms(2,3) show ?thesis
    by (simp add: caldav_getall_def with_status_def Let_def)
next
  case 2
  with assms(2,3) show ?thesis
    by (simp add: caldav_getrange_def with_status_def Let_def)
next
  case 3
  with assms(2,3) show ?thesis
    by (simp add: caldav_tasks_getall_def with_status_def Let_def)
next
  case 4
  with assms(2,3) show ?thesis
    by (simp add: caldav_tasks_getrange_def with_status_def Let_def)
qed

theorem transport_failure_witness:
  "get_curl unreachable stale_settings = Some blank_handle \<and>
   (\<forall>c. res (curl_easy_perform unreachable c) = 6) \<and>
   performed (caldav_getall unreachable stale_settings no_error) =
     [caldav_getall_setup stale_settings blank_handle] \<and>
   result (caldav_getall unreachable stale_settings no_error) \<and>
   error_out (caldav_getall unreachable stale_settings no_error) =
     \<lparr>code = - 1, str = Some ''Could not resolve host''\<rparr> \<and>
   caldav_getall (with_status 207 unreachable) stale_settings no_error =
     caldav_getall unreachable stale_settings no_error \<and>
   performed (caldav_getrange unreachable stale_settings no_error) =
     [caldav_getrange_setup stale_settings blank_handle] \<and>
   result (caldav_getrange unreachable stale_settings no_error) \<and>
   error_out (caldav_getrange unreachable stale_settings no_error) =
     \<lparr>code = - 1, str = Some ''Could not resolve host''\<rparr> \<and>
   caldav_getrange (with_status 207 unreachable) stale_settings no_error =
     caldav_getrange unreachable stale_settings no_error \<and>
   performed (caldav_tasks_getall unreachable stale_settings no_error) =
     [caldav_tasks_getall_setup stale_settings blank_handle] \<and>
   result (caldav_tasks_getall unreachable stale_settings no_error) \<and>
   error_out (caldav_tasks_getall unreachable stale_settings no_error) =
     \<lparr>code = - 1, str = Some ''Could not resolve host''\<rparr> \<and>
   caldav_tasks_getall (with_status 207 unreachable) stale_settings no_error =
     caldav_tasks_getall unreachable stale_settings no_error \<and>
   performed (caldav_tasks_getrange unreachable stale_settings no_error) =
     [caldav_tasks_getrange_setup stale_settings blank_handle] \<and>
   result (caldav_tasks_getrange unreachable stale_settings no_error) \<and>
   error_out (caldav_tasks_getrange unreachable stale_settings no_error) =
     \<lparr>code = - 1, str = Some ''Could not resolve host''\<rparr> \<and>
   caldav_tasks_getrange (with_status 207 unreachable) stale_settings no_error =
     caldav_tasks_getrange unreachable stale_settings no_error"
proof -
  have g: "get_curl unreachable stale_settings = Some blank_handle"
    by simp
  have r: "res (curl_easy_perform unreachable c) \<noteq> 0" for c
    by (simp add: failed_transfer_def)
  from transport_failure [OF setups_unit(1) g r, of no_error 207]
    transport_failure [OF setups_unit(2) g r, of no_error 207]
    transport_failure [OF setups_unit(3) g r, of no_error 207]
    transport_failure [OF setups_unit(4) g r, of no_error 207]
  show ?thesis
    by (simp add: failed_transfer_def caldav_error.equality)
qed

subsection \<open>Method and headers\<close>

text \<open>Claim C5. Every handle that one of the four operations performs carries the
  custom request method \<^verbatim>\<open>REPORT\<close> and exactly the five header lines
  \<^verbatim>\<open>Content-Type: application/xml; charset="utf-8"\<close>, \<^verbatim>\<open>Depth: 1\<close>, an empty
  \<^verbatim>\<open>Expect:\<close>, an empty \<^verbatim>\<open>Transfer-Encoding:\<close> and \<^verbatim>\<open>Connection: close\<close>, in
  this order; the length of the body is given explicitly as the post field
  size.\<close>

theorem report_method_and_headers:
  assumes "f \<in> report_operations" and "c \<in> set (performed (f env s e))"
  shows \<open>opt_customrequest c = Some ''REPORT'' \<and>
         opt_httpheader c =
           [''Content-Type: application/xml; charset="utf-8"'', ''Depth: 1'', ''Expect:'',
            ''Transfer-Encoding:'', ''Connection: close''] \<and>
         (\<exists>body. opt_postfields c = Some body \<and> opt_postfieldsize c = length body)\<close>
  using assms(1)
proof (cases rule: report_operations_cases)
  case 1
  with assms(2) obtain h where "c = caldav_getall_setup s h"
    using performed_getall by blast
  then show ?thesis
    by (simp add: setup_customrequest setup_httpheader setup_postfieldsize)
next
  case 2
  with assms(2) obtain h where "c = caldav_getrange_setup s h"
    using performed_getrange by blast
  then show ?thesis
    by (simp add: setup_customrequest setup_httpheader setup_postfieldsize)
next
  case 3
  with assms(2) obtain h where "c = caldav_tasks_getall_setup s h"
    using performed_tasks_getall by blast
  then show ?thesis
    by (simp add: setup_customrequest setup_httpheader setup_postfieldsize)
next
  case 4
  with assms(2) obtain h where "c = caldav_tasks_getrange_setup s h"
    using performed_tasks_getrange by blast
  then show ?thesis
    by (simp add: setup_customrequest setup_httpheader setup_postfieldsize)
qed

theorem report_method_and_headers_witness:
  \<open>(caldav_getrange :: unit env \<Rightarrow> _) \<in> report_operations \<and>
   caldav_getrange_setup stale_settings blank_handle
     \<in> set (performed (caldav_getrange not_found stale_settings no_error)) \<and>
   opt_customrequest (caldav_getrange_setup stale_settings blank_handle) = Some ''REPORT'' \<and>
   opt_httpheader (caldav_getrange_setup stale_settings blank_handle) =
     [''Content-Type: application/xml; charset="utf-8"'', ''Depth: 1'', ''Expect:'',
      ''Transfer-Encoding:'', ''Connection: close'']\<close>
proof -
  have p: "caldav_getrange_setup stale_settings blank_handle
      \<in> set (performed (caldav_getrange not_found stale_settings no_error))"
    by (simp add: caldav_getrange_def not_found_def scripted_def transfer_defs Let_def)
  from report_method_and_headers [OF report_operations_unit(2) p] p show ?thesis
    by simp
qed

subsection \<open>The range operations and the status\<close>

text \<open>Claim C9. In \<^verbatim>\<open>caldav_getrange\<close> and \<^verbatim>\<open>caldav_tasks_getrange\<close>, whenever
  \<^verbatim>\<open>get_curl\<close> gives a handle and the transfer of the prepared handle completes
  (curl code 0), the function performs that one handle, returns \<^verbatim>\<open>FALSE\<close>,
  stores what \<^verbatim>\<open>parse_caldav_report\<close> makes of the body (for \<^verbatim>\<open>calendar-data\<close>
  and the operation's component) in \<^verbatim>\<open>settings->file\<close> and leaves the error
  record as it was; the status is never looked at: whatever status the transfer
  reports, 207 or not, the outcome is the same.\<close>

theorem getrange_ignores_status:
  assumes "(f, prepare, component) \<in> range_setups"
    and "get_curl env s = Some h"
    and "res (curl_easy_perform env (prepare s h)) = 0"
  shows "performed (f env s e) = [prepare s h] \<and>
         \<not> result (f env s e) \<and>
         file' (settings_out (f env s e)) =
           parse_caldav_report env (chunk_memory (curl_easy_perform env (prepare s h)))
             ''calendar-data'' component \<and>
         error_out (f env s e) = e \<and>
         f (with_status k env) s e = f env s e"
  using assms(1)
proof (cases rule: range_setups_cases)
  case 1
  with assms(2,3) show ?thesis
    by (simp add: caldav_getrange_def with_status_def Let_def)
next
  case 2
  with assms(2,3) show ?thesis
    by (simp add: caldav_tasks_getrange_def with_status_def Let_def)
qed

theorem getrange_ignores_status_witness:
  "get_curl not_found stale_settings = Some blank_handle \<and>
   (\<forall>c. res (curl_easy_perform not_found c) = 0 \<and>
        response_code (curl_easy_perform not_found c) = 404) \<and>
   performed (caldav_getrange not_found stale_settings no_error) =
     [caldav_getrange_setup stale_settings blank_handle] \<and>
   \<not> result (caldav_getrange not_found stale_settings no_error) \<and>
   file' (settings_out (caldav_getrange not_found stale_settings no_error)) =
     Some ''calendar-data/VEVENT: <html>Not Found</html>'' \<and>
   error_out (caldav_getrange not_found stale_settings no_error) = no_error \<and>
   caldav_getrange (with_status 207 not_found) stale_settings no_error =
     caldav_getrange not_found stale_settings no_error \<and>
   performed (caldav_tasks_getrange not_found stale_settings no_error) =
     [caldav_tasks_getrange_setup stale_settings blank_handle] \<and>
   \<not> result (caldav_tasks_getrange not_found stale_settings no_error) \<and>
   file' (settings_out (caldav_tasks_getrange not_found stale_settings no_error)) =
     Some ''calendar-data/VTODO: <html>Not Found</html>'' \<and>
   error_out (caldav_tasks_getrange not_found stale_settings no_error) = no_error \<and>
   caldav_tasks_getrange (with_status 207 not_found) stale_settings no_error =
     caldav_tasks_getrange not_found stale_settings no_error"
proof -
  have g: "get_curl not_found stale_settings = Some blank_handle"
    by simp
  have r: "res (curl_easy_perform not_found c) = 0" for c
    by (simp add: not_found_transfer_def)
  from getrange_ignores_status [OF setups_unit(7) g r, of no_error 207]
    getrange_ignores_status [OF setups_unit(8) g r, of no_error 207]
  show ?thesis
    by (simp add: not_found_def scripted_def not_found_transfer_def)
qed

subsection \<open>Request bodies\<close>

text \<open>Claim C4. Whenever \<^verbatim>\<open>get_curl\<close> gives a handle, \<^verbatim>\<open>caldav_getall\<close> and
  \<^verbatim>\<open>caldav_tasks_getall\<close> perform one handle, and its body is always the same,
  whatever the surroundings, the settings and the error record are. Its tags, in
  document order, are the XML declaration, \<^verbatim>\<open>calendar-query\<close>, a \<^verbatim>\<open>prop\<close> holding
  \<^verbatim>\<open>getetag\<close> and \<^verbatim>\<open>calendar-data\<close>, and a \<^verbatim>\<open>filter\<close> holding a \<^verbatim>\<open>comp-filter\<close>
  on \<^verbatim>\<open>VCALENDAR\<close> whose only child is one empty \<^verbatim>\<open>comp-filter\<close> naming
  \<^verbatim>\<open>VEVENT\<close> (events) or \<^verbatim>\<open>VTODO\<close> (tasks): there is no \<^verbatim>\<open>time-range\<close> or any
  other restriction.\<close>

theorem getall_body_fixed:
  assumes "(f, component) \<in> all_operations" and "get_curl env s = Some h"
  shows \<open>\<exists>c body.
           performed (f env s e) = [c] \<and> opt_postfields c = Some body \<and>
           xml_tags body =
             [''?xml version="1.0" encoding="utf-8" ?'',
              ''C:calendar-query xmlns:D="DAV:"                 xmlns:C="urn:ietf:params:xml:ns:caldav"'',
              ''D:prop'', ''D:getetag/'', ''C:calendar-data/'', ''/D:prop'',
              ''C:filter'', ''C:comp-filter name="VCALENDAR"'',
              ''C:comp-filter name="'' @ component @ ''"/'',
              ''/C:comp-filter'', ''/C:filter'', ''/C:calendar-query''] \<and>
           (\<forall>env' s' e' h'. get_curl env' s' = Some h' \<longrightarrow>
              (\<exists>c'. performed (f env' s' e') = [c'] \<and> opt_postfields c' = Some body))\<close>
proof -
  from assms(1) consider "f = caldav_getall" "component = ''VEVENT''"
    | "f = caldav_tasks_getall" "component = ''VTODO''"
    unfolding all_operations_def by blast
  then show ?thesis
  proof cases
    case 1
    have "performed (f env s e) = [caldav_getall_setup s h]"
      using 1 assms(2) by (simp add: performed_with_handle)
    moreover have "opt_postfields (caldav_getall_setup s h) = Some getall_request"
      by (simp add: setup_postfields)
    moreover have "\<exists>c'. performed (f env' s' e') = [c'] \<and> opt_postfields c' = Some getall_request"
      if "get_curl env' s' = Some h'" for env' s' e' h'
      using 1 that by (simp add: performed_with_handle setup_postfields)
    ultimately show ?thesis
      using 1 getall_tags by auto
  next
    case 2
    have "performed (f env s e) = [caldav_tasks_getall_setup s h]"
      using 2 assms(2) by (simp add: performed_with_handle)
    moreover have "opt_postfields (caldav_tasks_getall_setup s h) = Some getall_tasks_request"
      by (simp add: setup_postfields)
    moreover have "\<exists>c'. performed (f env' s' e') = [c'] \<and> opt_postfields c' = Some getall_tasks_request"
      if "get_curl env' s' = Some h'" for env' s' e' h'
      using 2 that by (simp add: performed_with_handle setup_postfields)
    ultimately show ?thesis
      using 2 getall_tasks_tags by auto
  qed
qed

theorem getall_body_fixed_witness:
  \<open>get_curl multistatus stale_settings = Some blank_handle \<and>
   get_curl not_found (stale_settings\<lparr>debug := 1\<rparr>) = Some blank_handle \<and>
   performed (caldav_getall multistatus stale_settings no_error) =
     [caldav_getall_setup stale_settings blank_handle] \<and>
   opt_postfields (caldav_getall_setup stale_settings blank_handle) = Some getall_request \<and>
   xml_tags getall_request =
             [''?xml version="1.0" encoding="utf-8" ?'',
              ''C:calendar-query xmlns:D="DAV:"                 xmlns:C="urn:ietf:params:xml:ns:caldav"'',
              ''D:prop'', ''D:getetag/'', ''C:calendar-data/'', ''/D:prop'',
              ''C:filter'', ''C:comp-filter name="VCALENDAR"'',
              ''C:comp-filter name="VEVENT"/'',
              ''/C:comp-filter'', ''/C:filter'', ''/C:calendar-query''] \<and>
   performed (caldav_getall not_found (stale_settings\<lparr>debug := 1\<rparr>) no_error) =
     [caldav_getall_setup (stale_settings\<lparr>debug := 1\<rparr>) blank_handle] \<and>
   opt_postfields (caldav_getall_setup (stale_settings\<lparr>debug := 1\<rparr>) blank_handle) =
     Some getall_request \<and>
   performed (caldav_tasks_getall multistatus stale_settings no_error) =
     [caldav_tasks_getall_setup stale_settings blank_handle] \<and>
   opt_postfields (caldav_tasks_getall_setup stale_settings blank_handle) =
     Some getall_tasks_request \<and>
   xml_tags getall_tasks_request =
             [''?xml version="1.0" encoding="utf-8" ?'',
              ''C:calendar-query xmlns:D="DAV:"                 xmlns:C="urn:ietf:params:xml:ns:caldav"'',
              ''D:prop'', ''D:getetag/'', ''C:calendar-data/'', ''/D:prop'',
              ''C:filter'', ''C:comp-filter name="VCALENDAR"'',
              ''C:comp-filter name="VTODO"/'',
              ''/C:comp-filter'', ''/C:filter'', ''/C:calendar-query''] \<and>
   performed (caldav_tasks_getall not_found (stale_settings\<lparr>debug := 1\<rparr>) no_error) =
     [caldav_tasks_getall_setup (stale_settings\<lparr>debug := 1\<rparr>) blank_handle] \<and>
   opt_postfields (caldav_tasks_getall_setup (stale_settings\<lparr>debug := 1\<rparr>) blank_handle) =
     Some getall_tasks_request\<close>
proof -
  have g: "get_curl multistatus stale_settings = Some blank_handle"
    and g': "get_curl not_found (stale_settings\<lparr>debug := 1\<rparr>) = Some blank_handle"
    by simp_all
  have p: "performed (caldav_getall multistatus stale_settings no_error) =
        [caldav_getall_setup stale_settings blank_handle]"
      "performed (caldav_getall not_found (stale_settings\<lparr>debug := 1\<rparr>) no_error) =
        [caldav_getall_setup (stale_settings\<lparr>debug := 1\<rparr>) blank_handle]"
      "performed (caldav_tasks_getall multistatus stale_settings no_error) =
        [caldav_tasks_getall_setup stale_settings blank_handle]"
      "performed (caldav_tasks_getall not_found (stale_settings\<lparr>debug := 1\<rparr>) no_error) =
        [caldav_tasks_getall_setup (stale_settings\<lparr>debug := 1\<rparr>) blank_handle]"
    by (simp_all add: performed_with_handle)
  have b: "opt_postfields (caldav_getall_setup stale_settings blank_handle) = Some getall_request"
      "opt_postfields (caldav_tasks_getall_setup stale_settings blank_handle) =
        Some getall_tasks_request"
    by (simp_all add: setup_postfields)
  from getall_body_fixed [OF setups_unit(9) g, of no_error] p(1) b(1) g'
  have e: \<open>xml_tags getall_request =
             [''?xml version="1.0" encoding="utf-8" ?'',
              ''C:calendar-query xmlns:D="DAV:"                 xmlns:C="urn:ietf:params:xml:ns:caldav"'',
              ''D:prop'', ''D:getetag/'', ''C:calendar-data/'', ''/D:prop'',
              ''C:filter'', ''C:comp-filter name="VCALENDAR"'',
              ''C:comp-filter name="VEVENT"/'',
              ''/C:comp-filter'', ''/C:filter'', ''/C:calendar-query'']\<close>
    and e': "\<exists>c'. performed (caldav_getall not_found (stale_settings\<lparr>debug := 1\<rparr>) no_error) = [c'] \<and>
      opt_postfields c' = Some getall_request"
    by auto
  from getall_body_fixed [OF setups_unit(10) g, of no_error] p(3) b(2) g'
  have t: \<open>xml_tags getall_tasks_request =
             [''?xml version="1.0" encoding="utf-8" ?'',
              ''C:calendar-query xmlns:D="DAV:"                 xmlns:C="urn:ietf:params:xml:ns:caldav"'',
              ''D:prop'', ''D:getetag/'', ''C:calendar-data/'', ''/D:prop'',
              ''C:filter'', ''C:comp-filter name="VCALENDAR"'',
              ''C:comp-filter name="VTODO"/'',
              ''/C:comp-filter'', ''/C:filter'', ''/C:calendar-query'']\<close>
    and t': "\<exists>c'. performed (caldav_tasks_getall not_found (stale_settings\<lparr>debug := 1\<rparr>) no_error) = [c'] \<and>
      opt_postfields c' = Some getall_tasks_request"
    by auto
  from e' p(2) have e'': "opt_postfields (caldav_getall_setup (stale_settings\<lparr>debug := 1\<rparr>) blank_handle) =
      Some getall_request"
    by simp
  from t' p(4) have t'': "opt_postfields (caldav_tasks_getall_setup (stale_settings\<lparr>debug := 1\<rparr>) blank_handle) =
      Some getall_tasks_request"
    by simp
  from g g' p b e t e'' t'' show ?thesis
    by blast
qed

text \<open>Claim C3. Whenever \<^verbatim>\<open>get_curl\<close> gives a handle, \<^verbatim>\<open>caldav_getrange\<close> and
  \<^verbatim>\<open>caldav_tasks_getrange\<close> perform one handle, and its body has these tags, in
  document order: the XML declaration, \<^verbatim>\<open>calendar-query\<close>, a \<^verbatim>\<open>prop\<close> holding
  \<^verbatim>\<open>calendar-data\<close> only (no \<^verbatim>\<open>getetag\<close>), and a \<^verbatim>\<open>filter\<close> holding a
  \<^verbatim>\<open>comp-filter\<close> on \<^verbatim>\<open>VCALENDAR\<close>, holding a \<^verbatim>\<open>comp-filter\<close> on \<^verbatim>\<open>VEVENT\<close>
  (events) or \<^verbatim>\<open>VTODO\<close> (tasks), holding exactly one \<^verbatim>\<open>time-range\<close> element whose
  \<^verbatim>\<open>start\<close> and \<^verbatim>\<open>end\<close> attributes are the timestamps of \<^verbatim>\<open>settings->start\<close> and
  \<^verbatim>\<open>settings->end\<close>. This holds for every pair of instants, so in particular for
  those with start before end.\<close>

theorem getrange_body_time_range:
  assumes "(f, component) \<in> range_operations" and "get_curl env s = Some h"
  shows \<open>\<exists>c body.
           performed (f env s e) = [c] \<and> opt_postfields c = Some body \<and>
           xml_tags body =
             [''?xml version="1.0" encoding="utf-8" ?'',
              ''C:calendar-query xmlns:C="urn:ietf:params:xml:ns:caldav"'',
              ''D:prop xmlns:D="DAV:"'', ''C:calendar-data/'', ''/D:prop'',
              ''C:filter'', ''C:comp-filter name="VCALENDAR"'',
              ''C:comp-filter name="'' @ component @ ''"'',
              ''C:time-range start="'' @ get_caldav_datetime (start s) @ ''"'' @ CRLF @
                '' end="'' @ get_caldav_datetime (end' s) @ ''"/'',
              ''/C:comp-filter'', ''/C:comp-filter'', ''/C:filter'', ''/C:calendar-query'']\<close>
proof -
  from assms(1) consider "f = caldav_getrange" "component = ''VEVENT''"
    | "f = caldav_tasks_getrange" "component = ''VTODO''"
    unfolding range_operations_def by blast
  then show ?thesis
  proof cases
    case 1
    have "performed (f env s e) = [caldav_getrange_setup s h]"
      using 1 assms(2) by (simp add: performed_with_handle)
    then show ?thesis
      using 1 getrange_tags [of "start s" "end' s"] by (simp add: setup_postfields)
  next
    case 2
    have "performed (f env s e) = [caldav_tasks_getrange_setup s h]"
      using 2 assms(2) by (simp add: performed_with_handle)
    then show ?thesis
      using 2 getrange_tasks_tags [of "start s" "end' s"] by (simp add: setup_postfields)
  qed
qed

theorem getrange_body_time_range_witness:
  \<open>get_curl not_found stale_settings = Some blank_handle \<and>
   start stale_settings \<le> end' stale_settings \<and>
   performed (caldav_getrange not_found stale_settings no_error) =
     [caldav_getrange_setup stale_settings blank_handle] \<and>
   map_option xml_tags (opt_postfields (caldav_getrange_setup stale_settings blank_handle)) =
     Some [''?xml version="1.0" encoding="utf-8" ?'',
              ''C:calendar-query xmlns:C="urn:ietf:params:xml:ns:caldav"'',
              ''D:prop xmlns:D="DAV:"'', ''C:calendar-data/'', ''/D:prop'',
              ''C:filter'', ''C:comp-filter name="VCALENDAR"'',
              ''C:comp-filter name="VEVENT"'',
              ''C:time-range start="19700101T000000Z"'' @ CRLF @
                '' end="19700101T235959Z"/'',
              ''/C:comp-filter'', ''/C:comp-filter'', ''/C:filter'', ''/C:calendar-query''] \<and>
   performed (caldav_tasks_getrange not_found stale_settings no_error) =
     [caldav_tasks_getrange_setup stale_settings blank_handle] \<and>
   map_option xml_tags (opt_postfields (caldav_tasks_getrange_setup stale_settings blank_handle)) =
     Some [''?xml version="1.0" encoding="utf-8" ?'',
              ''C:calendar-query xmlns:C="urn:ietf:params:xml:ns:caldav"'',
              ''D:prop xmlns:D="DAV:"'', ''C:calendar-data/'', ''/D:prop'',
              ''C:filter'', ''C:comp-filter name="VCALENDAR"'',
              ''C:comp-filter name="VTODO"'',
              ''C:time-range start="19700101T000000Z"'' @ CRLF @
                '' end="19700101T235959Z"/'',
              ''/C:comp-filter'', ''/C:comp-filter'', ''/C:filter'', ''/C:calendar-query'']\<close>
proof -
  have g: "get_curl not_found stale_settings = Some blank_handle"
    by simp
  have t: "start stale_settings = 0" "end' stale_settings = 86399"
    by (simp_all add: stale_settings_def)
  have p: "performed (caldav_getrange not_found stale_settings no_error) =
        [caldav_getrange_setup stale_settings blank_handle]"
      "performed (caldav_tasks_getrange not_found stale_settings no_error) =
        [caldav_tasks_getrange_setup stale_settings blank_handle]"
    by (simp_all add: performed_with_handle)
  from getrange_body_time_range [OF setups_unit(11) g, of no_error] p(1)
  have e: \<open>map_option xml_tags (opt_postfields (caldav_getrange_setup stale_settings blank_handle)) =
     Some [''?xml version="1.0" encoding="utf-8" ?'',
              ''C:calendar-query xmlns:C="urn:ietf:params:xml:ns:caldav"'',
              ''D:prop xmlns:D="DAV:"'', ''C:calendar-data/'', ''/D:prop'',
              ''C:filter'', ''C:comp-filter name="VCALENDAR"'',
              ''C:comp-filter name="VEVENT"'',
              ''C:time-range start="19700101T000000Z"'' @ CRLF @
                '' end="19700101T235959Z"/'',
              ''/C:comp-filter'', ''/C:comp-filter'', ''/C:filter'', ''/C:calendar-query'']\<close>
    by (auto simp add: t datetime_examples)
  from getrange_body_time_range [OF setups_unit(12) g, of no_error] p(2)
  have v: \<open>map_option xml_tags (opt_postfields (caldav_tasks_getrange_setup stale_settings blank_handle)) =
     Some [''?xml version="1.0" encoding="utf-8" ?'',
              ''C:calendar-query xmlns:C="urn:ietf:params:xml:ns:caldav"'',
              ''D:prop xmlns:D="DAV:"'', ''C:calendar-data/'', ''/D:prop'',
              ''C:filter'', ''C:comp-filter name="VCALENDAR"'',
              ''C:comp-filter name="VTODO"'',
              ''C:time-range start="19700101T000000Z"'' @ CRLF @
                '' end="19700101T235959Z"/'',
              ''/C:comp-filter'', ''/C:comp-filter'', ''/C:filter'', ''/C:calendar-query'']\<close>
    by (auto simp add: t datetime_examples)
  from g t p e v show ?thesis
    by simp
qed

subsection \<open>The error record\<close>

text \<open>Claim C8. For each of the four operations and every input, the function
  returns \<^verbatim>\<open>TRUE\<close> if and only if it has written the caller's error record, code
  and message both, so that what the record holds afterwards does not depend on
  what it held before; and it returns \<^verbatim>\<open>FALSE\<close> if and only if it leaves the
  record as it was.\<close>

theorem error_record_iff_failure:
  assumes "f \<in> report_operations"
  shows "(result (f env s e) \<longleftrightarrow> (\<forall>e1 e2. error_out (f env s e1) = error_out (f env s e2))) \<and>
         (\<not> result (f env s e) \<longleftrightarrow> (\<forall>e1. error_out (f env s e1) = e1))"
  using assms
proof (cases rule: error_out_cases [where env = env and s = s])
  case (failed c m)
  have "\<not> (\<forall>e1. error_out (f env s e1) = e1)"
  proof
    assume "\<forall>e1. error_out (f env s e1) = e1"
    then have "error_out (f env s \<lparr>code = c + 1, str = m\<rparr>) = \<lparr>code = c + 1, str = m\<rparr>"
      by blast
    then show False by (simp add: failed(2))
  qed
  with failed show ?thesis by simp
next
  case succeeded
  have "\<not> (\<forall>e1 e2. error_out (f env s e1) = error_out (f env s e2))"
  proof
    assume "\<forall>e1 e2. error_out (f env s e1) = error_out (f env s e2)"
    then have "error_out (f env s \<lparr>code = 0, str = None\<rparr>) =
        error_out (f env s \<lparr>code = 1, str = None\<rparr>)"
      by blast
    then show False by (simp add: succeeded(2))
  qed
  with succeeded show ?thesis by simp
qed


theorem error_record_iff_failure_witness:
  "(caldav_getall :: unit env \<Rightarrow> _) \<in> report_operations \<and>
   result (caldav_getall not_found stale_settings no_error) \<and>
   (\<forall>e1 e2. error_out (caldav_getall not_found stale_settings e1) =
      error_out (caldav_getall not_found stale_settings e2)) \<and>
   \<not> result (caldav_getall multistatus stale_settings no_error) \<and>
   (\<forall>e1. error_out (caldav_getall multistatus stale_settings e1) = e1)"
proof -
  have r: "result (caldav_getall not_found stale_settings no_error)"
    by (simp add: caldav_getall_def not_found_def scripted_def transfer_defs Let_def)
  have n: "\<not> result (caldav_getall multistatus stale_settings no_error)"
    by (simp add: caldav_getall_def multistatus_def scripted_def transfer_defs Let_def)
  from error_record_iff_failure [OF report_operations_unit(1), of not_found stale_settings no_error]
    error_record_iff_failure [OF report_operations_unit(1), of multistatus stale_settings no_error]
    r n
  show ?thesis by simp
qed


subsection \<open>The status of a completed transfer\<close>

text \<open>For \<^verbatim>\<open>caldav_getall\<close> and \<^verbatim>\<open>caldav_tasks_getall\<close>: when the transfer
  completes, the operation succeeds if and only if the status is 207; then the
  parsed report is stored and the error record is left alone; for any other
  status the error record holds the status as code and the response headers as
  message.\<close>

theorem getall_status_mapping:
  assumes "(f, prepare, component) \<in> all_setups"
    and "get_curl env s = Some h"
    and "res (curl_easy_perform env (prepare s h)) = 0"
  shows "performed (f env s e) = [prepare s h] \<and>
         (\<not> result (f env s e) \<longleftrightarrow> response_code (curl_easy_perform env (prepare s h)) = 207) \<and>
         (if response_code (curl_easy_perform env (prepare s h)) = 207
          then file' (settings_out (f env s e)) =
                 parse_caldav_report env (chunk_memory (curl_easy_perform env (prepare s h)))
                   ''calendar-data'' component \<and>
               error_out (f env s e) = e
          else error_out (f env s e) =
                 \<lparr>code = response_code (curl_easy_perform env (prepare s h)),
                  str = headers_memory (curl_easy_perform env (prepare s h))\<rparr>)"
  using assms(1)
proof (cases rule: all_setups_cases)
  case 1
  with assms(2,3) show ?thesis
    by (simp add: caldav_getall_def Let_def error_overwritten)
next
  case 2
  with assms(2,3) show ?thesis
    by (simp add: caldav_tasks_getall_def Let_def error_overwritten)
qed

theorem getall_status_mapping_witness:
  "get_curl not_found stale_settings = Some blank_handle \<and>
   get_curl multistatus stale_settings = Some blank_handle \<and>
   (\<forall>c. res (curl_easy_perform not_found c) = 0 \<and> res (curl_easy_perform multistatus c) = 0) \<and>
   result (caldav_getall not_found stale_settings no_error) \<and>
   error_out (caldav_getall not_found stale_settings no_error) =
     \<lparr>code = 404, str = Some ''HTTP/1.1 404 Not Found''\<rparr> \<and>
   \<not> result (caldav_tasks_getall multistatus stale_settings no_error) \<and>
   error_out (caldav_tasks_getall multistatus stale_settings no_error) = no_error \<and>
   file' (settings_out (caldav_tasks_getall multistatus stale_settings no_error)) =
     Some ''calendar-data/VTODO: <D:multistatus xmlns:D=\"DAV:\"/>''"
proof -
  have g: "get_curl not_found stale_settings = Some blank_handle"
    and g': "get_curl multistatus stale_settings = Some blank_handle"
    by simp_all
  have r: "res (curl_easy_perform not_found c) = 0" "res (curl_easy_perform multistatus c) = 0" for c
    by (simp_all add: transfer_defs)
  from getall_status_mapping [OF setups_unit(5) g r(1), of no_error]
    getall_status_mapping [OF setups_unit(6) g' r(2), of no_error]
  show ?thesis
    by (simp add: transfer_defs multistatus_def scripted_def)
qed

text \<open>Claim C1 says this of all four operations. The two range operations differ:
  for a transfer that completes with the status 404 both return \<^verbatim>\<open>FALSE\<close> and
  leave the error record as it was, where the claim asks for \<^verbatim>\<open>TRUE\<close> with the
  code 404.\<close>

theorem range_operations_accept_404:
  "res (curl_easy_perform not_found (caldav_getrange_setup stale_settings blank_handle)) = 0 \<and>
   response_code (curl_easy_perform not_found
     (caldav_getrange_setup stale_settings blank_handle)) = 404 \<and>
   \<not> result (caldav_getrange not_found stale_settings no_error) \<and>
   error_out (caldav_getrange not_found stale_settings no_error) = no_error \<and>
   \<not> result (caldav_tasks_getrange not_found stale_settings no_error) \<and>
   error_out (caldav_tasks_getrange not_found stale_settings no_error) = no_error"
  by (simp add: caldav_getrange_def caldav_tasks_getrange_def not_found_def scripted_def
      transfer_defs Let_def)

subsection \<open>The settings after a failure\<close>

text \<open>When no handle could be made, or the transfer itself failed, each of the four
  operations returns \<^verbatim>\<open>TRUE\<close> and leaves \<^verbatim>\<open>settings->file\<close> cleared.\<close>

theorem early_failure_clears_file:
  assumes "(f, prepare) \<in> report_setups"
    and "get_curl env s = None \<or>
         (\<exists>h. get_curl env s = Some h \<and> res (curl_easy_perform env (prepare s h)) \<noteq> 0)"
  shows "result (f env s e) \<and> file' (settings_out (f env s e)) = None"
  using assms(1)
proof (cases rule: report_setups_cases)
  case 1
  with assms(2) show ?thesis
    by (auto simp add: caldav_getall_def Let_def)
next
  case 2
  with assms(2) show ?thesis
    by (auto simp add: caldav_getrange_def Let_def)
next
  case 3
  with assms(2) show ?thesis
    by (auto simp add: caldav_tasks_getall_def Let_def)
next
  case 4
  with assms(2) show ?thesis
    by (auto simp add: caldav_tasks_getrange_def Let_def)
qed

theorem early_failure_clears_file_witness:
  "get_curl unreachable stale_settings = Some blank_handle \<and>
   (\<forall>c. res (curl_easy_perform unreachable c) = 6) \<and>
   file' stale_settings = Some ''BEGIN:VCALENDAR'' \<and>
   result (caldav_getrange unreachable stale_settings no_error) \<and>
   file' (settings_out (caldav_getrange unreachable stale_settings no_error)) = None \<and>
   result (caldav_tasks_getall unreachable stale_settings no_error) \<and>
   file' (settings_out (caldav_tasks_getall unreachable stale_settings no_error)) = None"
proof -
  have h: "get_curl unreachable stale_settings = None \<or>
      (\<exists>h. get_curl unreachable stale_settings = Some h \<and>
        res (curl_easy_perform unreachable (prepare stale_settings h)) \<noteq> 0)" for prepare
    by (simp add: failed_transfer_def)
  from early_failure_clears_file [OF setups_unit(2) h [of caldav_getrange_setup], of no_error]
    early_failure_clears_file [OF setups_unit(3) h [of caldav_tasks_getall_setup], of no_error]
  show ?thesis
    by (simp add: failed_transfer_def stale_settings_def)
qed

text \<open>Claim C2 says that \<^verbatim>\<open>settings->file\<close> is cleared on every failure path,
  the one of an unexpected status included. On that path \<^verbatim>\<open>caldav_getall\<close> and
  \<^verbatim>\<open>caldav_tasks_getall\<close> do not touch it: with settings that hold an earlier
  result and a transfer that completes with the status 404, both return
  \<^verbatim>\<open>TRUE\<close> with the code 404 and \<^verbatim>\<open>settings->file\<close> still holds the earlier
  result.\<close>

theorem status_failure_keeps_file:
  "result (caldav_getall not_found stale_settings no_error) \<and>
   code (error_out (caldav_getall not_found stale_settings no_error)) = 404 \<and>
   file' (settings_out (caldav_getall not_found stale_settings no_error)) =
     Some ''BEGIN:VCALENDAR'' \<and>
   result (caldav_tasks_getall not_found stale_settings no_error) \<and>
   code (error_out (caldav_tasks_getall not_found stale_settings no_error)) = 404 \<and>
   file' (settings_out (caldav_tasks_getall not_found stale_settings no_error)) =
     Some ''BEGIN:VCALENDAR''"
  by (simp add: caldav_getall_def caldav_tasks_getall_def not_found_def scripted_def
      transfer_defs stale_settings_def Let_def)

subsection \<open>Redirects\<close>

text \<open>Each operation performs one handle, and leaves redirects to the transfer: the
  handle asks to follow the location, to send the credentials to every host, to
  keep a POST on redirects, and carries the method \<^verbatim>\<open>REPORT\<close>. No option that
  limits the number of redirects is set by these functions.\<close>

theorem redirect_options:
  assumes "(f, prepare) \<in> report_setups" and "get_curl env s = Some h"
  shows "performed (f env s e) = [prepare s h] \<and>
         opt_followlocation (prepare s h) = 1 \<and> opt_unrestricted_auth (prepare s h) = 1 \<and>
         opt_postredir (prepare s h) = Some CURL_REDIR_POST_ALL \<and>
         opt_customrequest (prepare s h) = Some ''REPORT''"
  using assms(1)
proof (cases rule: report_setups_cases)
  case 1
  with assms(2) show ?thesis
    by (simp add: performed_with_handle setup_redirect setup_customrequest)
next
  case 2
  with assms(2) show ?thesis
    by (simp add: performed_with_handle setup_redirect setup_customrequest)
next
  case 3
  with assms(2) show ?thesis
    by (simp add: performed_with_handle setup_redirect setup_customrequest)
next
  case 4
  with assms(2) show ?thesis
    by (simp add: performed_with_handle setup_redirect setup_customrequest)
qed

theorem redirect_options_witness:
  "get_curl multistatus stale_settings = Some blank_handle \<and>
   performed (caldav_getall multistatus stale_settings no_error) =
     [caldav_getall_setup stale_settings blank_handle] \<and>
   opt_followlocation (caldav_getall_setup stale_settings blank_handle) = 1 \<and>
   opt_unrestricted_auth (caldav_getall_setup stale_settings blank_handle) = 1 \<and>
   opt_postredir (caldav_getall_setup stale_settings blank_handle) = Some CURL_REDIR_POST_ALL \<and>
   performed (caldav_tasks_getrange multistatus stale_settings no_error) =
     [caldav_tasks_getrange_setup stale_settings blank_handle] \<and>
   opt_followlocation (caldav_tasks_getrange_setup stale_settings blank_handle) = 1 \<and>
   opt_unrestricted_auth (caldav_tasks_getrange_setup stale_settings blank_handle) = 1 \<and>
   opt_postredir (caldav_tasks_getrange_setup stale_settings blank_handle) =
     Some CURL_REDIR_POST_ALL"
proof -
  have g: "get_curl multistatus stale_settings = Some blank_handle"
    by simp
  from redirect_options [OF setups_unit(1) g, of no_error]
    redirect_options [OF setups_unit(4) g, of no_error] g
  show ?thesis
    by simp
qed

end
